theory Spec2Isabelle
  imports Complex_Main "HOL-Library.Multiset"
begin

section \<open>Geometry primitives used by the page-split layout adapter\<close>

text \<open>
  \<^verbatim>\<open>PageLayoutAdapter.cpp\<close> works on Qt's \<^verbatim>\<open>QPointF\<close>, \<^verbatim>\<open>QLineF\<close> and
  \<^verbatim>\<open>QRectF\<close>. Coordinates (\<^verbatim>\<open>qreal\<close>, a double) are modelled as exact reals:
  rounding error, infinities and NaN are outside the model. The primitives below follow
  Qt 5's documented behaviour; they are the geometry collaborator of the adapter, not
  part of it.
\<close>

type_synonym QPointF = "real \<times> real"

record QLineF =
  pt1 :: QPointF
  pt2 :: QPointF

text \<open>A \<^verbatim>\<open>QRectF\<close> stores its top-left corner and its size.\<close>

record QRectF =
  rxp :: real
  ryp :: real
  rw :: real
  rh :: real

definition left :: "QRectF \<Rightarrow> real" where
  "left r = rxp r"

definition top_rect :: "QRectF \<Rightarrow> real" where
  "top_rect r = ryp r"

definition right :: "QRectF \<Rightarrow> real" where
  "right r = rxp r + rw r"

definition bottom :: "QRectF \<Rightarrow> real" where
  "bottom r = ryp r + rh r"

definition topLeft :: "QRectF \<Rightarrow> QPointF" where
  "topLeft r = (left r, top_rect r)"

definition topRight :: "QRectF \<Rightarrow> QPointF" where
  "topRight r = (right r, top_rect r)"

definition bottomLeft :: "QRectF \<Rightarrow> QPointF" where
  "bottomLeft r = (left r, bottom r)"

definition bottomRight :: "QRectF \<Rightarrow> QPointF" where
  "bottomRight r = (right r, bottom r)"

text \<open>\<^verbatim>\<open>QRectF::isValid\<close>: a valid rectangle has positive width and height.\<close>

definition isValid :: "QRectF \<Rightarrow> bool" where
  "isValid r = (0 < rw r \<and> 0 < rh r)"

text \<open>
  \<^verbatim>\<open>qFuzzyCompare\<close> and \<^verbatim>\<open>qFuzzyIsNull\<close>: Qt's comparisons of doubles with a relative
  tolerance of \<open>10\<^sup>-\<^sup>1\<^sup>2\<close>.
\<close>

definition qFuzzyCompare :: "real \<Rightarrow> real \<Rightarrow> bool" where
  "qFuzzyCompare a b = (\<bar>a - b\<bar> * 1000000000000 \<le> min \<bar>a\<bar> \<bar>b\<bar>)"

definition qFuzzyIsNull :: "real \<Rightarrow> bool" where
  "qFuzzyIsNull d = (\<bar>d\<bar> * 1000000000000 \<le> 1)"

text \<open>
  \<^verbatim>\<open>QLineF::isNull\<close>: the end points are not distinct, where they count as distinct
  if \<^verbatim>\<open>qFuzzyCompare\<close> tells them apart in at least one coordinate.
\<close>

definition isNull :: "QLineF \<Rightarrow> bool" where
  "isNull l = (qFuzzyCompare (fst (pt1 l)) (fst (pt2 l)) \<and> qFuzzyCompare (snd (pt1 l)) (snd (pt2 l)))"

text \<open>\<^verbatim>\<open>operator==\<close> on two \<^verbatim>\<open>QPointF\<close>: fuzzy in each coordinate.\<close>

definition coord_eq :: "real \<Rightarrow> real \<Rightarrow> bool" where
  "coord_eq a b = (if a = 0 \<or> b = 0 then qFuzzyIsNull (a - b) else qFuzzyCompare a b)"

definition qpointf_eq :: "QPointF \<Rightarrow> QPointF \<Rightarrow> bool" where
  "qpointf_eq p q = (coord_eq (fst p) (fst q) \<and> coord_eq (snd p) (snd q))"

text \<open>\<^verbatim>\<open>operator==\<close> on two \<^verbatim>\<open>QRectF\<close>: fuzzy on position and size.\<close>

definition qrectf_eq :: "QRectF \<Rightarrow> QRectF \<Rightarrow> bool" where
  "qrectf_eq r s = (qFuzzyCompare (rxp r) (rxp s) \<and> qFuzzyCompare (ryp r) (ryp s)
     \<and> qFuzzyCompare (rw r) (rw s) \<and> qFuzzyCompare (rh r) (rh s))"

text \<open>
  \<^verbatim>\<open>QLineF::intersects\<close> (\<^verbatim>\<open>intersect\<close> before Qt 5.14): the intersection of the two
  infinite lines. \<open>None\<close> is \<^verbatim>\<open>NoIntersection\<close> (parallel or degenerate lines); the
  adapter never tells \<^verbatim>\<open>BoundedIntersection\<close> from \<^verbatim>\<open>UnboundedIntersection\<close>, so both
  are \<open>Some\<close> of the point.
\<close>

definition intersects :: "QLineF \<Rightarrow> QLineF \<Rightarrow> QPointF option" where
  "intersects l m =
     (let ax = fst (pt2 l) - fst (pt1 l); ay = snd (pt2 l) - snd (pt1 l);
          bx = fst (pt1 m) - fst (pt2 m); by = snd (pt1 m) - snd (pt2 m);
          cx = fst (pt1 l) - fst (pt1 m); cy = snd (pt1 l) - snd (pt1 m);
          denominator = ay * bx - ax * by
      in if denominator = 0 then None
         else let na = (by * cx - bx * cy) * (1 / denominator)
              in Some (fst (pt1 l) + ax * na, snd (pt1 l) + ay * na))"

text \<open>\<^verbatim>\<open>QLineF::pointAt\<close>.\<close>

definition pointAt :: "QLineF \<Rightarrow> real \<Rightarrow> QPointF" where
  "pointAt l t = (fst (pt1 l) + (fst (pt2 l) - fst (pt1 l)) * t,
                  snd (pt1 l) + (snd (pt2 l) - snd (pt1 l)) * t)"

text \<open>
  Rounding to integer geometry, as in Qt 5. \<^verbatim>\<open>qRound\<close> rounds to the nearest integer,
  a half upwards; \<^verbatim>\<open>QLineF::toLine\<close> rounds the four coordinates; \<^verbatim>\<open>QRectF::toRect\<close>
  rounds the top-left corner and the bottom-right corner. A \<^verbatim>\<open>QRect\<close> stores its
  corners inclusively, so the second corner is one less than the rounded right and
  bottom. The rounded values are unbounded integers: the overflow of \<^verbatim>\<open>int\<close> is
  outside the model.
\<close>

definition qRound :: "real \<Rightarrow> int" where
  "qRound d = \<lfloor>d + 1 / 2\<rfloor>"

record QLine =
  ipt1 :: "int \<times> int"
  ipt2 :: "int \<times> int"

record QRect =
  ix1 :: int
  iy1 :: int
  ix2 :: int
  iy2 :: int

definition toLine :: "QLineF \<Rightarrow> QLine" where
  "toLine l = \<lparr>ipt1 = (qRound (fst (pt1 l)), qRound (snd (pt1 l))),
               ipt2 = (qRound (fst (pt2 l)), qRound (snd (pt2 l)))\<rparr>"

definition toRect :: "QRectF \<Rightarrow> QRect" where
  "toRect r = \<lparr>ix1 = qRound (rxp r), iy1 = qRound (ryp r),
               ix2 = qRound (rxp r + rw r) - 1, iy2 = qRound (ryp r + rh r) - 1\<rparr>"

text \<open>The implicit conversions \<^verbatim>\<open>QLineF(const QLine&)\<close> and \<^verbatim>\<open>QRectF(const QRect&)\<close>.\<close>

definition QLineF_of :: "QLine \<Rightarrow> QLineF" where
  "QLineF_of l = \<lparr>pt1 = (real_of_int (fst (ipt1 l)), real_of_int (snd (ipt1 l))),
                  pt2 = (real_of_int (fst (ipt2 l)), real_of_int (snd (ipt2 l)))\<rparr>"

definition QRectF_of :: "QRect \<Rightarrow> QRectF" where
  "QRectF_of r = \<lparr>rxp = real_of_int (ix1 r), ryp = real_of_int (iy1 r),
                  rw = real_of_int (ix2 r - ix1 r + 1), rh = real_of_int (iy2 r - iy1 r + 1)\<rparr>"

section \<open>The page layout\<close>

text \<open>
  Modelled from the spec: the class \<^verbatim>\<open>PageLayout\<close> (PageLayout.h, PageLayout.cpp) is
  not among the sources. Following the data model of the specification, a layout holds
  its outline as a rectangle, its type, and zero, two or one cutter lines.
\<close>

datatype LayoutType = SINGLE_PAGE_UNCUT | SINGLE_PAGE_CUT | TWO_PAGES

record PageLayout =
  uncutOutline :: QRectF
  layoutType :: LayoutType
  cutterLines :: "QLineF list"

text \<open>
  Modelled from the spec: the outline is a rectangle, so the bounding rectangle that the
  adapter takes of it (\<^verbatim>\<open>uncutOutline().boundingRect()\<close>) is the outline itself.
\<close>

definition boundingRect :: "QRectF \<Rightarrow> QRectF" where
  "boundingRect r = r"

text \<open>Modelled from the spec: the number of cutter lines that a layout of each type has.\<close>

definition numCutters :: "LayoutType \<Rightarrow> nat" where
  "numCutters t = (case t of SINGLE_PAGE_UNCUT \<Rightarrow> 0 | SINGLE_PAGE_CUT \<Rightarrow> 2 | TWO_PAGES \<Rightarrow> 1)"

text \<open>
  Modelled from the spec: \<^verbatim>\<open>cutterLine(idx)\<close> reads a cutter line of the layout; reading
  a line that the layout does not have violates the contract of the class and is \<open>None\<close>.
\<close>

definition cutterLine :: "PageLayout \<Rightarrow> nat \<Rightarrow> QLineF option" where
  "cutterLine layout idx =
     (if idx < length (cutterLines layout) then Some (cutterLines layout ! idx) else None)"

text \<open>Modelled from the spec: \<^verbatim>\<open>setType\<close> changes the classification and nothing else.\<close>

definition setType :: "LayoutType \<Rightarrow> PageLayout \<Rightarrow> PageLayout" where
  "setType t layout = layout\<lparr>layoutType := t\<rparr>"

text \<open>
  Modelled from the spec: the three constructors that \<^verbatim>\<open>adaptPageLayout\<close> calls, from an
  outline alone, from an outline and two cutter lines, and from an outline and one line.
\<close>

definition PageLayout_uncut :: "QRectF \<Rightarrow> PageLayout" where
  "PageLayout_uncut fullRect =
     \<lparr>uncutOutline = fullRect, layoutType = SINGLE_PAGE_UNCUT, cutterLines = []\<rparr>"

definition PageLayout_cut :: "QRectF \<Rightarrow> QLineF \<Rightarrow> QLineF \<Rightarrow> PageLayout" where
  "PageLayout_cut fullRect cutter1 cutter2 =
     \<lparr>uncutOutline = fullRect, layoutType = SINGLE_PAGE_CUT, cutterLines = [cutter1, cutter2]\<rparr>"

definition PageLayout_two :: "QRectF \<Rightarrow> QLineF \<Rightarrow> PageLayout" where
  "PageLayout_two fullRect splitLine =
     \<lparr>uncutOutline = fullRect, layoutType = TWO_PAGES, cutterLines = [splitLine]\<rparr>"

section \<open>PageLayoutAdapter\<close>

subsection \<open>adaptCutter\<close>

text \<open>
  The clamping of an intersection's x into the horizontal extent of the border, which
  the source writes out once for the upper and once for the lower intersection.
\<close>

definition clampX :: "real \<Rightarrow> real \<Rightarrow> QPointF \<Rightarrow> QPointF" where
  "clampX lo hi p = (if fst p < lo then (lo, snd p) else if fst p > hi then (hi, snd p) else p)"

definition upperBorder :: "QRectF \<Rightarrow> QLineF" where
  "upperBorder newRect = \<lparr>pt1 = topLeft newRect, pt2 = topRight newRect\<rparr>"

definition lowerBorder :: "QRectF \<Rightarrow> QLineF" where
  "lowerBorder newRect = \<lparr>pt1 = bottomLeft newRect, pt2 = bottomRight newRect\<rparr>"

definition adaptCutter :: "QLineF \<Rightarrow> QRectF \<Rightarrow> QLineF" where
  "adaptCutter cutterLine' newRect =
     (if \<not> isValid newRect \<or> isNull cutterLine' then cutterLine'
      else case intersects (upperBorder newRect) cutterLine' of
        None \<Rightarrow> cutterLine'
      | Some upperIntersection \<Rightarrow>
          (let upperIntersection' =
                 clampX (fst (topLeft newRect)) (fst (topRight newRect)) upperIntersection
           in case intersects (lowerBorder newRect) cutterLine' of
                None \<Rightarrow> cutterLine'
              | Some lowerIntersection \<Rightarrow>
                  (let lowerIntersection' =
                         clampX (fst (bottomLeft newRect)) (fst (bottomRight newRect))
                           lowerIntersection
                   in \<lparr>pt1 = upperIntersection', pt2 = lowerIntersection'\<rparr>)))"

subsection \<open>adaptCutters\<close>

definition x1 :: "QLineF \<Rightarrow> real" where
  "x1 l = fst (pt1 l)"

definition x2 :: "QLineF \<Rightarrow> real" where
  "x2 l = fst (pt2 l)"

text \<open>
  The body of the conflict loop at index \<open>i\<close>: the pair \<open>i - 1\<close>, \<open>i\<close> is tested and,
  when it crosses strictly inside the vertical span, both lines are cut at one border.
\<close>

definition fixCutterPair :: "real \<Rightarrow> real \<Rightarrow> nat \<Rightarrow> QLineF list \<Rightarrow> QLineF list" where
  "fixCutterPair upperBound lowerBound i adaptedCutters =
     (let cutterLeft = adaptedCutters ! (i - 1);
          cutterRight = adaptedCutters ! i
      in case intersects cutterLeft cutterRight of
           None \<Rightarrow> adaptedCutters
         | Some intersection \<Rightarrow>
             if snd intersection < lowerBound \<and> snd intersection > upperBound then
               (if lowerBound - snd intersection \<le> (lowerBound - upperBound) / 2 then
                  adaptedCutters
                    [i - 1 := cutterLeft\<lparr>pt2 := (fst intersection, lowerBound)\<rparr>,
                     i := cutterRight\<lparr>pt2 := (fst intersection, lowerBound)\<rparr>]
                else
                  adaptedCutters
                    [i - 1 := cutterLeft\<lparr>pt1 := (fst intersection, upperBound)\<rparr>,
                     i := cutterRight\<lparr>pt1 := (fst intersection, upperBound)\<rparr>])
             else adaptedCutters)"

function cuttersLoop :: "real \<Rightarrow> real \<Rightarrow> nat \<Rightarrow> QLineF list \<Rightarrow> QLineF list" where
  "cuttersLoop upperBound lowerBound i adaptedCutters =
     (if i < length adaptedCutters
      then cuttersLoop upperBound lowerBound (Suc i)
             (fixCutterPair upperBound lowerBound i adaptedCutters)
      else adaptedCutters)"
  by pat_completeness auto
termination
  by (relation "measure (\<lambda>(ub, lb, i, cs). length cs - i)")
     (auto simp: fixCutterPair_def Let_def split: option.splits)

declare cuttersLoop.simps [simp del]

text \<open>
  \<^verbatim>\<open>std::sort\<close> with the comparison \<^verbatim>\<open>line1.x1() < line2.x1()\<close> is modelled by the
  insertion sort \<open>sort_key\<close>; the order \<^verbatim>\<open>std::sort\<close> gives to lines with equal
  \<^verbatim>\<open>x1\<close> is unspecified, and \<open>sort_key\<close> keeps them in input order.
\<close>

definition adaptCutters :: "QLineF list \<Rightarrow> QRectF \<Rightarrow> QLineF list" where
  "adaptCutters cuttersList newRect =
     (let adaptedCutters = map (\<lambda>cutter. adaptCutter cutter newRect) cuttersList;
          sortedCutters = sort_key x1 adaptedCutters
      in cuttersLoop (top_rect newRect) (bottom newRect) 1 sortedCutters)"

subsection \<open>correctPageLayoutType\<close>

text \<open>
  The two blocks of the function, for \<^verbatim>\<open>SINGLE_PAGE_CUT\<close> and for \<^verbatim>\<open>TWO_PAGES\<close>. Both
  read the cutter lines through \<^verbatim>\<open>toLine()\<close> and get the rounded outline.
\<close>

definition correctCut :: "QRectF \<Rightarrow> PageLayout \<Rightarrow> PageLayout option" where
  "correctCut outline layout =
     (case (cutterLine layout 0, cutterLine layout 1) of
        (Some c0, Some c1) \<Rightarrow>
          (let cutterLine1 = QLineF_of (toLine c0);
               cutterLine2 = QLineF_of (toLine c1);
               layout1 =
                 (if (x1 cutterLine1 = x2 cutterLine1
                      \<and> (x1 cutterLine1 = left outline \<or> x1 cutterLine1 = right outline))
                     \<and> (x1 cutterLine2 = x2 cutterLine2
                          \<and> (x1 cutterLine2 = left outline \<or> x1 cutterLine2 = right outline))
                  then setType SINGLE_PAGE_UNCUT layout else layout);
               intersectType = intersects cutterLine1 cutterLine2
           in Some (if (case intersectType of
                          Some intersection \<Rightarrow>
                            snd intersection > top_rect outline \<and> snd intersection < bottom outline
                        | None \<Rightarrow> qpointf_eq (pointAt cutterLine1 0) (pointAt cutterLine2 0))
                    then setType SINGLE_PAGE_UNCUT layout1 else layout1))
      | _ \<Rightarrow> None)"

definition correctTwoPages :: "QRectF \<Rightarrow> PageLayout \<Rightarrow> PageLayout option" where
  "correctTwoPages outline layout =
     (case cutterLine layout 0 of
        Some c0 \<Rightarrow>
          (let cutterLine1 = QLineF_of (toLine c0)
           in Some (if x1 cutterLine1 = x2 cutterLine1
                       \<and> (x1 cutterLine1 = left outline \<or> x1 cutterLine1 = right outline)
                    then setType SINGLE_PAGE_UNCUT layout else layout))
      | None \<Rightarrow> None)"

text \<open>
  The function mutates the layout it is given; the model returns the layout after the
  call, or \<open>None\<close> where a cutter line is read that the layout does not have.
\<close>

definition correctPageLayoutType :: "PageLayout \<Rightarrow> PageLayout option" where
  "correctPageLayoutType layout =
     (let outline = QRectF_of (toRect (boundingRect (uncutOutline layout)))
      in case (if layoutType layout = SINGLE_PAGE_CUT then correctCut outline layout
               else Some layout) of
           None \<Rightarrow> None
         | Some layout' \<Rightarrow>
             if layoutType layout' = TWO_PAGES then correctTwoPages outline layout'
             else Some layout')"

subsection \<open>adaptPageLayout\<close>

text \<open>
  The result is \<open>None\<close> only where a cutter line is read that the layout does not
  have.
\<close>

definition adaptPageLayout :: "PageLayout \<Rightarrow> QRectF \<Rightarrow> PageLayout option" where
  "adaptPageLayout pageLayout outline =
     (if qrectf_eq (boundingRect (uncutOutline pageLayout)) outline then Some pageLayout
      else if layoutType pageLayout = SINGLE_PAGE_CUT then
        (case (cutterLine pageLayout 0, cutterLine pageLayout 1) of
           (Some c0, Some c1) \<Rightarrow>
             (case adaptCutters [c0, c1] outline of
                a0 # a1 # _ \<Rightarrow> correctPageLayoutType (PageLayout_cut outline a0 a1)
              | _ \<Rightarrow> None)
         | _ \<Rightarrow> None)
      else if layoutType pageLayout = TWO_PAGES then
        (case cutterLine pageLayout 0 of
           Some c0 \<Rightarrow> correctPageLayoutType (PageLayout_two outline (adaptCutter c0 outline))
         | None \<Rightarrow> None)
      else Some (PageLayout_uncut outline))"


section \<open>Example inputs\<close>

text \<open>
  Rectangles wide enough that no projection is clamped, lines that span them from top
  to bottom, and layouts with cutters on, near and away from the edges of the outline.
\<close>

definition ex_rect :: QRectF where
  "ex_rect = \<lparr>rxp = 0, ryp = 0, rw = 200, rh = 100\<rparr>"







definition ex_two_layout :: PageLayout where
  "ex_two_layout =
     \<lparr>uncutOutline = \<lparr>rxp = 0, ryp = 0, rw = 200, rh = 300\<rparr>,
      layoutType = TWO_PAGES,
      cutterLines = [\<lparr>pt1 = (2 / 5, 0), pt2 = (2 / 5, 300)\<rparr>]\<rparr>"


definition ex_spread_layout :: PageLayout where
  "ex_spread_layout =
     \<lparr>uncutOutline = \<lparr>rxp = 0, ryp = 0, rw = 200, rh = 300\<rparr>,
      layoutType = TWO_PAGES,
      cutterLines = [\<lparr>pt1 = (150, 0), pt2 = (150, 300)\<rparr>]\<rparr>"


section \<open>Properties of the geometry primitives\<close>

lemmas geom_defs = top_rect_def bottom_def left_def right_def topLeft_def topRight_def
  bottomLeft_def bottomRight_def upperBorder_def lowerBorder_def isValid_def isNull_def
  qFuzzyCompare_def intersects_def clampX_def x1_def x2_def

lemma qFuzzyCompare_refl: "qFuzzyCompare a a"
  by (simp add: qFuzzyCompare_def)

lemma qrectf_eq_refl: "qrectf_eq r r"
  by (simp add: qrectf_eq_def qFuzzyCompare_refl)






text \<open>
  Horizontal lines do not intersect each other, and an intersection with a border of a
  rectangle lies on the height of that border.
\<close>

lemma intersects_horizontal:
  "snd (pt1 l) = snd (pt2 l) \<Longrightarrow> snd (pt1 m) = snd (pt2 m) \<Longrightarrow> intersects l m = None"
  by (simp add: intersects_def Let_def)

lemma intersects_upperBorder_horizontal:
  "snd (pt1 l) = snd (pt2 l) \<Longrightarrow> intersects (upperBorder r) l = None"
  by (rule intersects_horizontal) (simp_all add: upperBorder_def topLeft_def topRight_def)




lemma right_rounded: "right (QRectF_of (toRect r)) = real_of_int (qRound (right r))"
  by (simp add: right_def QRectF_of_def toRect_def)

lemma left_rounded: "left (QRectF_of (toRect r)) = real_of_int (qRound (left r))"
  by (simp add: left_def QRectF_of_def toRect_def)

lemma x1_rounded: "x1 (QLineF_of (toLine c)) = real_of_int (qRound (x1 c))"
  by (simp add: x1_def QLineF_of_def toLine_def)

lemma x2_rounded: "x2 (QLineF_of (toLine c)) = real_of_int (qRound (x2 c))"
  by (simp add: x2_def QLineF_of_def toLine_def)


section \<open>Properties of adaptCutter and adaptCutters\<close>















section \<open>Properties of correctPageLayoutType\<close>

lemmas layout_defs = correctPageLayoutType_def correctCut_def correctTwoPages_def cutterLine_def
  setType_def boundingRect_def toLine_def toRect_def QLineF_of_def QRectF_of_def qRound_def
  pointAt_def qpointf_eq_def coord_eq_def qFuzzyIsNull_def

lemma correctCut_cases:
  "correctCut outline layout = None
   \<or> correctCut outline layout = Some layout
   \<or> correctCut outline layout = Some (layout\<lparr>layoutType := SINGLE_PAGE_UNCUT\<rparr>)"
  by (simp add: correctCut_def setType_def Let_def split: option.splits)

lemma correctTwoPages_cases:
  "correctTwoPages outline layout = None
   \<or> correctTwoPages outline layout = Some layout
   \<or> correctTwoPages outline layout = Some (layout\<lparr>layoutType := SINGLE_PAGE_UNCUT\<rparr>)"
  by (simp add: correctTwoPages_def setType_def Let_def split: option.splits)

lemma correctPageLayoutType_cases:
  "correctPageLayoutType layout = None
   \<or> correctPageLayoutType layout = Some layout
   \<or> correctPageLayoutType layout = Some (layout\<lparr>layoutType := SINGLE_PAGE_UNCUT\<rparr>)"
proof (cases "layoutType layout")
  case SINGLE_PAGE_UNCUT
  then show ?thesis by (simp add: correctPageLayoutType_def)
next
  case SINGLE_PAGE_CUT
  then show ?thesis
    using correctCut_cases [of "QRectF_of (toRect (boundingRect (uncutOutline layout)))" layout]
    by (auto simp: correctPageLayoutType_def)
next
  case TWO_PAGES
  then show ?thesis
    using correctTwoPages_cases [of "QRectF_of (toRect (boundingRect (uncutOutline layout)))" layout]
    by (auto simp: correctPageLayoutType_def)
qed

lemma correctPageLayoutType_total:
  assumes "length (cutterLines layout) = numCutters (layoutType layout)"
  shows "correctPageLayoutType layout \<noteq> None"
  using assms
  by (cases "layoutType layout")
     (auto simp: correctPageLayoutType_def correctCut_def correctTwoPages_def cutterLine_def
        numCutters_def setType_def Let_def split: option.splits)



lemma correctPageLayoutType_two:
  assumes "layoutType L = TWO_PAGES" "cutterLines L = [c1]"
  shows "correctPageLayoutType L =
    (let outline = QRectF_of (toRect (boundingRect (uncutOutline L)));
         r1 = QLineF_of (toLine c1)
     in Some (if x1 r1 = x2 r1 \<and> (x1 r1 = left outline \<or> x1 r1 = right outline)
              then L\<lparr>layoutType := SINGLE_PAGE_UNCUT\<rparr> else L))"
  using assms
  by (auto simp: correctPageLayoutType_def correctTwoPages_def cutterLine_def setType_def Let_def)







section \<open>The example inputs evaluated\<close>







section \<open>Claims\<close>









text \<open>
  Claim C4, as amended. For a layout of type \<^verbatim>\<open>TWO_PAGES\<close> with the single cutter line
  \<open>c1\<close>, \<^verbatim>\<open>correctPageLayoutType\<close> sets the type to \<^verbatim>\<open>SINGLE_PAGE_UNCUT\<close> exactly when
  the integer-rounded line \<open>toLine c1\<close> is vertical and its x equals the left or the right
  of the integer-rounded outline; a vertical \<open>c1\<close> lying exactly on the left or the right
  of the outline is such a line. End to end, the \<^verbatim>\<open>TWO_PAGES\<close> layout with cutter
  \<open>(150,0)-(150,300)\<close> and outline \<open>{0,0,200,300}\<close> adapted to \<open>{0,0,100,300}\<close> has the
  cutter \<open>(100,0)-(100,300)\<close> and the type \<^verbatim>\<open>SINGLE_PAGE_UNCUT\<close>. The counterexample is a
  vertical cutter at \<open>x = 0.4\<close> in an outline from 0 to 200: it is on neither edge, and
  the type still becomes \<^verbatim>\<open>SINGLE_PAGE_UNCUT\<close>.
\<close>

theorem correctPageLayoutType_two_on_rounded:
  "(layoutType L = TWO_PAGES \<and> cutterLines L = [c1] \<longrightarrow>
      correctPageLayoutType L =
        (let outline = QRectF_of (toRect (boundingRect (uncutOutline L)));
             r1 = QLineF_of (toLine c1)
         in Some (if x1 r1 = x2 r1 \<and> (x1 r1 = left outline \<or> x1 r1 = right outline)
                  then L\<lparr>layoutType := SINGLE_PAGE_UNCUT\<rparr> else L)))
   \<and> (layoutType L = TWO_PAGES \<and> cutterLines L = [c1] \<and> x1 c1 = x2 c1
        \<and> (x1 c1 = left (boundingRect (uncutOutline L))
             \<or> x1 c1 = right (boundingRect (uncutOutline L)))
      \<longrightarrow> correctPageLayoutType L = Some (L\<lparr>layoutType := SINGLE_PAGE_UNCUT\<rparr>))
   \<and> adaptCutter \<lparr>pt1 = (150, 0), pt2 = (150, 300)\<rparr> \<lparr>rxp = 0, ryp = 0, rw = 100, rh = 300\<rparr>
       = \<lparr>pt1 = (100, 0), pt2 = (100, 300)\<rparr>
   \<and> adaptPageLayout
        \<lparr>uncutOutline = \<lparr>rxp = 0, ryp = 0, rw = 200, rh = 300\<rparr>, layoutType = TWO_PAGES,
         cutterLines = [\<lparr>pt1 = (150, 0), pt2 = (150, 300)\<rparr>]\<rparr>
        \<lparr>rxp = 0, ryp = 0, rw = 100, rh = 300\<rparr>
       = Some \<lparr>uncutOutline = \<lparr>rxp = 0, ryp = 0, rw = 100, rh = 300\<rparr>,
               layoutType = SINGLE_PAGE_UNCUT,
               cutterLines = [\<lparr>pt1 = (100, 0), pt2 = (100, 300)\<rparr>]\<rparr>"
proof (intro conjI impI)
  assume "layoutType L = TWO_PAGES \<and> cutterLines L = [c1]"
  then show "correctPageLayoutType L =
        (let outline = QRectF_of (toRect (boundingRect (uncutOutline L)));
             r1 = QLineF_of (toLine c1)
         in Some (if x1 r1 = x2 r1 \<and> (x1 r1 = left outline \<or> x1 r1 = right outline)
                  then L\<lparr>layoutType := SINGLE_PAGE_UNCUT\<rparr> else L))"
    by (simp add: correctPageLayoutType_two)
next
  assume "layoutType L = TWO_PAGES \<and> cutterLines L = [c1] \<and> x1 c1 = x2 c1
        \<and> (x1 c1 = left (boundingRect (uncutOutline L))
             \<or> x1 c1 = right (boundingRect (uncutOutline L)))"
  then show "correctPageLayoutType L = Some (L\<lparr>layoutType := SINGLE_PAGE_UNCUT\<rparr>)"
    by (auto simp: correctPageLayoutType_two [of L c1] Let_def x1_rounded x2_rounded
        left_rounded right_rounded)
next
  show "adaptCutter \<lparr>pt1 = (150, 0), pt2 = (150, 300)\<rparr> \<lparr>rxp = 0, ryp = 0, rw = 100, rh = 300\<rparr>
       = \<lparr>pt1 = (100, 0), pt2 = (100, 300)\<rparr>"
    by (simp add: adaptCutter_def geom_defs Let_def)
next
  show "adaptPageLayout
        \<lparr>uncutOutline = \<lparr>rxp = 0, ryp = 0, rw = 200, rh = 300\<rparr>, layoutType = TWO_PAGES,
         cutterLines = [\<lparr>pt1 = (150, 0), pt2 = (150, 300)\<rparr>]\<rparr>
        \<lparr>rxp = 0, ryp = 0, rw = 100, rh = 300\<rparr>
       = Some \<lparr>uncutOutline = \<lparr>rxp = 0, ryp = 0, rw = 100, rh = 300\<rparr>,
               layoutType = SINGLE_PAGE_UNCUT,
               cutterLines = [\<lparr>pt1 = (100, 0), pt2 = (100, 300)\<rparr>]\<rparr>"
    by (simp add: adaptPageLayout_def PageLayout_two_def adaptCutter_def qrectf_eq_def
        layout_defs geom_defs Let_def)
qed

theorem correctPageLayoutType_two_on_rounded_witness:
  "layoutType ex_spread_layout = TWO_PAGES
   \<and> cutterLines ex_spread_layout = [\<lparr>pt1 = (150, 0), pt2 = (150, 300)\<rparr>]
   \<and> correctPageLayoutType ex_spread_layout = Some ex_spread_layout
   \<and> layoutType (PageLayout_two ex_rect \<lparr>pt1 = (200, 0), pt2 = (200, 100)\<rparr>) = TWO_PAGES
   \<and> x1 \<lparr>pt1 = (200, 0), pt2 = (200, 100)\<rparr> = x2 \<lparr>pt1 = (200, 0), pt2 = (200, 100)\<rparr>
   \<and> x1 \<lparr>pt1 = (200, 0), pt2 = (200, 100)\<rparr> = right (boundingRect ex_rect)
   \<and> correctPageLayoutType (PageLayout_two ex_rect \<lparr>pt1 = (200, 0), pt2 = (200, 100)\<rparr>)
       = Some ((PageLayout_two ex_rect \<lparr>pt1 = (200, 0), pt2 = (200, 100)\<rparr>)
                 \<lparr>layoutType := SINGLE_PAGE_UNCUT\<rparr>)"
  using correctPageLayoutType_two_on_rounded [of ex_spread_layout "\<lparr>pt1 = (150, 0), pt2 = (150, 300)\<rparr>"]
    correctPageLayoutType_two_on_rounded
      [of "PageLayout_two ex_rect \<lparr>pt1 = (200, 0), pt2 = (200, 100)\<rparr>"
          "\<lparr>pt1 = (200, 0), pt2 = (200, 100)\<rparr>"]
  by (simp add: ex_spread_layout_def PageLayout_two_def ex_rect_def layout_defs geom_defs Let_def)

theorem correctPageLayoutType_two_unrounded_counterexample:
  "layoutType ex_two_layout = TWO_PAGES
   \<and> cutterLines ex_two_layout = [\<lparr>pt1 = (2 / 5, 0), pt2 = (2 / 5, 300)\<rparr>]
   \<and> left (boundingRect (uncutOutline ex_two_layout)) = 0
   \<and> right (boundingRect (uncutOutline ex_two_layout)) = 200
   \<and> x1 \<lparr>pt1 = (2 / 5, 0), pt2 = (2 / 5, 300)\<rparr>
       \<noteq> left (boundingRect (uncutOutline ex_two_layout))
   \<and> x1 \<lparr>pt1 = (2 / 5, 0), pt2 = (2 / 5, 300)\<rparr>
       \<noteq> right (boundingRect (uncutOutline ex_two_layout))
   \<and> correctPageLayoutType ex_two_layout
       = Some (ex_two_layout\<lparr>layoutType := SINGLE_PAGE_UNCUT\<rparr>)"
  by (simp add: ex_two_layout_def layout_defs geom_defs Let_def)



text \<open>
  Claim C6. \<^verbatim>\<open>adaptCutter\<close> returns its input line unchanged whenever the rectangle is
  invalid, the line is null, or the intersection with the top or with the bottom border
  does not exist; a horizontal line, which is parallel to both borders, is always
  returned unchanged. The function is total: there is no error result.
\<close>

theorem adaptCutter_fallback:
  "(\<not> isValid r \<or> isNull l \<or> intersects (upperBorder r) l = None
      \<or> intersects (lowerBorder r) l = None \<longrightarrow> adaptCutter l r = l)
   \<and> (snd (pt1 l) = snd (pt2 l) \<longrightarrow> adaptCutter l r = l)"
  using intersects_upperBorder_horizontal [of l r]
  by (auto simp: adaptCutter_def Let_def split: option.splits)

theorem adaptCutter_fallback_witness:
  "\<not> isValid \<lparr>rxp = 0, ryp = 0, rw = 0, rh = 100\<rparr>
   \<and> adaptCutter \<lparr>pt1 = (10, 0), pt2 = (20, 50)\<rparr> \<lparr>rxp = 0, ryp = 0, rw = 0, rh = 100\<rparr>
       = \<lparr>pt1 = (10, 0), pt2 = (20, 50)\<rparr>
   \<and> isNull \<lparr>pt1 = (10, 20), pt2 = (10, 20)\<rparr>
   \<and> adaptCutter \<lparr>pt1 = (10, 20), pt2 = (10, 20)\<rparr> ex_rect = \<lparr>pt1 = (10, 20), pt2 = (10, 20)\<rparr>
   \<and> isValid ex_rect \<and> \<not> isNull \<lparr>pt1 = (0, 50), pt2 = (10, 50)\<rparr>
   \<and> intersects (upperBorder ex_rect) \<lparr>pt1 = (0, 50), pt2 = (10, 50)\<rparr> = None
   \<and> intersects (lowerBorder ex_rect) \<lparr>pt1 = (0, 50), pt2 = (10, 50)\<rparr> = None
   \<and> adaptCutter \<lparr>pt1 = (0, 50), pt2 = (10, 50)\<rparr> ex_rect = \<lparr>pt1 = (0, 50), pt2 = (10, 50)\<rparr>"
  using adaptCutter_fallback [of "\<lparr>rxp = 0, ryp = 0, rw = 0, rh = 100\<rparr>" "\<lparr>pt1 = (10, 0), pt2 = (20, 50)\<rparr>"]
    adaptCutter_fallback [of ex_rect "\<lparr>pt1 = (10, 20), pt2 = (10, 20)\<rparr>"]
    adaptCutter_fallback [of ex_rect "\<lparr>pt1 = (0, 50), pt2 = (10, 50)\<rparr>"]
  by (simp add: ex_rect_def geom_defs Let_def)

text \<open>
  Claim C7. For every page layout \<open>L\<close>, \<^verbatim>\<open>adaptPageLayout\<close> applied to \<open>L\<close> and the
  bounding rectangle of the outline of \<open>L\<close> returns \<open>L\<close> unchanged.
\<close>

theorem adaptPageLayout_same_outline:
  "adaptPageLayout L (boundingRect (uncutOutline L)) = Some L"
  by (simp add: adaptPageLayout_def qrectf_eq_refl)




text \<open>
  Claim C9. \<^verbatim>\<open>correctPageLayoutType\<close> either keeps the type of the layout or sets it to
  \<^verbatim>\<open>SINGLE_PAGE_UNCUT\<close>; a layout of type \<^verbatim>\<open>SINGLE_PAGE_UNCUT\<close> is returned as it is. The
  function returns a layout for every layout that has the number of cutter lines of its
  type.
\<close>

theorem correctPageLayoutType_only_degrades:
  "(\<forall>layout'. correctPageLayoutType layout = Some layout' \<longrightarrow>
       layoutType layout' = layoutType layout \<or> layoutType layout' = SINGLE_PAGE_UNCUT)
   \<and> (layoutType layout = SINGLE_PAGE_UNCUT \<longrightarrow> correctPageLayoutType layout = Some layout)
   \<and> (length (cutterLines layout) = numCutters (layoutType layout) \<longrightarrow>
        correctPageLayoutType layout \<noteq> None)"
proof -
  have "\<forall>layout'. correctPageLayoutType layout = Some layout' \<longrightarrow>
       layoutType layout' = layoutType layout \<or> layoutType layout' = SINGLE_PAGE_UNCUT"
    using correctPageLayoutType_cases [of layout] by auto
  moreover have "layoutType layout = SINGLE_PAGE_UNCUT \<longrightarrow> correctPageLayoutType layout = Some layout"
    by (simp add: correctPageLayoutType_def)
  ultimately show ?thesis using correctPageLayoutType_total [of layout] by blast
qed

theorem correctPageLayoutType_only_degrades_witness:
  "length (cutterLines ex_spread_layout) = numCutters (layoutType ex_spread_layout)
   \<and> correctPageLayoutType ex_spread_layout = Some ex_spread_layout
   \<and> correctPageLayoutType ex_two_layout = Some (ex_two_layout\<lparr>layoutType := SINGLE_PAGE_UNCUT\<rparr>)
   \<and> layoutType ex_two_layout = TWO_PAGES
   \<and> layoutType (PageLayout_uncut ex_rect) = SINGLE_PAGE_UNCUT
   \<and> correctPageLayoutType (PageLayout_uncut ex_rect) = Some (PageLayout_uncut ex_rect)"
  using correctPageLayoutType_only_degrades [of ex_spread_layout]
    correctPageLayoutType_only_degrades [of ex_two_layout]
    correctPageLayoutType_only_degrades [of "PageLayout_uncut ex_rect"]
  by (simp add: ex_spread_layout_def ex_two_layout_def PageLayout_uncut_def numCutters_def
      layout_defs geom_defs Let_def)




end
